theory Spec2Isabelle
  imports Complex_Main
begin

section \<open>Values, schemas and validation results\<close>

text \<open>
  The helper module \<^verbatim>\<open>utils/utils.js\<close> works on parsed JSON bodies. A value is one
  of JavaScript's data values; an object is the list of its own properties in insertion
  order, an array the list of its elements. The payload of a number is never inspected
  by the helpers, and strings are taken as sequences of one-unit characters. A parsed
  body holds no functions.
\<close>

datatype jsval =
    JUndefined
  | JNull
  | JBool bool
  | JNum real
  | JStr string
  | JArr "jsval list"
  | JObj "(string \<times> jsval) list"

text \<open>
  The one exception the helpers can raise themselves: a property read on null or
  undefined, or a call of a value that is not a function.
\<close>

datatype js_error = TypeError

text \<open>
  A schema, as \<^verbatim>\<open>config/config.js\<close> declares them under \<^verbatim>\<open>schemas\<close>: the required and
  the optional field names. The validators read \<^verbatim>\<open>schema.required\<close> only.
\<close>

record schema =
  required :: "string list"
  optional :: "string list"

record validation =
  isValid :: bool
  errors :: "string list"

section \<open>Strings of indices\<close>

text \<open>The template literal \<^verbatim>\<open>`${index}`\<close> renders an array index in decimal.\<close>

definition digit :: "nat \<Rightarrow> char" where
  "digit d = ''0123456789'' ! d"

fun show_nat :: "nat \<Rightarrow> string" where
  "show_nat n = (if n < 10 then [digit n] else show_nat (n div 10) @ [digit (n mod 10)])"

declare show_nat.simps [simp del]

section \<open>The schema validator\<close>

text \<open>
  \<^verbatim>\<open>x.hasOwnProperty(field)\<close>: null and undefined have no properties to read, so the
  call raises; a boolean or a number is boxed and has no own properties; a string and an
  array own \<^verbatim>\<open>length\<close> and their indices; an object owns its keys. The method is
  looked up on the value itself: an object that owns a key \<^verbatim>\<open>hasOwnProperty\<close> shadows the
  inherited method with a value that is not a function, and the call raises.
\<close>

fun hasOwnProperty :: "jsval \<Rightarrow> string \<Rightarrow> js_error + bool" where
  "hasOwnProperty JUndefined field = Inl TypeError"
| "hasOwnProperty JNull field = Inl TypeError"
| "hasOwnProperty (JBool b) field = Inr False"
| "hasOwnProperty (JNum x) field = Inr False"
| "hasOwnProperty (JStr s) field =
     Inr (field = ''length'' \<or> field \<in> set (map show_nat [0..<length s]))"
| "hasOwnProperty (JArr xs) field =
     Inr (field = ''length'' \<or> field \<in> set (map show_nat [0..<length xs]))"
| "hasOwnProperty (JObj kvs) field =
     (if ''hasOwnProperty'' \<in> set (map fst kvs) then Inl TypeError
      else Inr (field \<in> set (map fst kvs)))"

text \<open>
  \<^verbatim>\<open>xs.forEach((x, index) => ...)\<close> with the callback's effect on the enclosing
  \<^verbatim>\<open>errors\<close> array passed as state. An exception in the callback ends the loop.
\<close>

fun forEach :: "('a \<Rightarrow> nat \<Rightarrow> 's \<Rightarrow> js_error + 's) \<Rightarrow> 'a list \<Rightarrow> nat \<Rightarrow> 's \<Rightarrow> js_error + 's" where
  "forEach f [] index s = Inr s"
| "forEach f (x # xs) index s =
     (case f x index s of
        Inl e \<Rightarrow> Inl e
      | Inr s' \<Rightarrow> forEach f xs (Suc index) s')"

definition validateSchema :: "jsval \<Rightarrow> schema \<Rightarrow> js_error + validation" where
  "validateSchema response schema =
     (case forEach
             (\<lambda>field _ errs.
                case hasOwnProperty response field of
                  Inl e \<Rightarrow> Inl e
                | Inr has \<Rightarrow>
                    Inr (if \<not> has then errs @ [''Missing required field: '' @ field] else errs))
             (required schema) 0 []
      of
        Inl e \<Rightarrow> Inl e
      | Inr errs \<Rightarrow> Inr \<lparr>isValid = (length errs = 0), errors = errs\<rparr>)"

text \<open>\<^verbatim>\<open>Array.isArray\<close>, and the elements that \<^verbatim>\<open>forEach\<close> visits on an array.\<close>

fun isArray :: "jsval \<Rightarrow> bool" where
  "isArray (JArr xs) = True"
| "isArray _ = False"

fun elements :: "jsval \<Rightarrow> jsval list" where
  "elements (JArr xs) = xs"
| "elements _ = []"

definition validateArraySchema :: "jsval \<Rightarrow> schema \<Rightarrow> js_error + validation" where
  "validateArraySchema response schema =
     (if \<not> isArray response then
        Inr \<lparr>isValid = False, errors = [''Response is not an array'']\<rparr>
      else
        (case forEach
                (\<lambda>item index errs.
                   case validateSchema item schema of
                     Inl e \<Rightarrow> Inl e
                   | Inr v \<Rightarrow>
                       forEach
                         (\<lambda>error _ errs'.
                            Inr (errs' @ [''Item '' @ show_nat index @ '': '' @ error]))
                         (errors v) 0 errs)
                (elements response) 0 []
         of
           Inl e \<Rightarrow> Inl e
         | Inr errs \<Rightarrow> Inr \<lparr>isValid = (length errs = 0), errors = errs\<rparr>))"

section \<open>The request executor\<close>

text \<open>
  The configuration module \<^verbatim>\<open>config/config.js\<close>. The executor reads \<^verbatim>\<open>config.baseURL\<close>
  and \<^verbatim>\<open>config.timeouts.request\<close> from it, the test wrapper \<^verbatim>\<open>config.timeouts.test\<close>;
  the helpers take it as a parameter, and \<open>config_js\<close> is the module as it stands.
\<close>

record timeouts =
  request :: real
  test :: real

record config =
  baseURL :: string
  timeouts :: timeouts

definition config_js :: config where
  "config_js =
     \<lparr>baseURL = ''http://localhost:5006'', timeouts = \<lparr>request = 5000, test = 10000\<rparr>\<rparr>"

text \<open>
  What the helpers read of a response: its status, its parsed body and its headers.
\<close>

record response =
  status :: int
  data :: jsval
  headers :: "string \<rightharpoonup> string"

text \<open>
  The error object a rejected \<^verbatim>\<open>axios\<close> call throws. The catch block reads
  \<^verbatim>\<open>error.message\<close>, \<^verbatim>\<open>error.response\<close> and whether \<^verbatim>\<open>error.request\<close> is set.
\<close>

record axios_error =
  message :: string
  error_response :: "response option"
  error_request :: bool

text \<open>
  The reason of a rejection: an error object, as \<^verbatim>\<open>axios\<close> and the runtime throw them,
  or null or undefined, which have no properties to read.
\<close>

datatype rejection = Nullish | ErrorObject axios_error

text \<open>
  An options object is a finite map from property names to values; the object spread
  \<^verbatim>\<open>{...a, ...b}\<close> is \<open>a ++ b\<close>, the later properties winning. The transport is a
  parameter: it takes the request configuration and resolves (\<open>Inr\<close>) or rejects
  (\<open>Inl\<close>).
\<close>

type_synonym js_object = "string \<rightharpoonup> jsval"

type_synonym transport = "js_object \<Rightarrow> rejection + response"

text \<open>The object literal that \<^verbatim>\<open>makeRequest\<close> passes to \<^verbatim>\<open>axios\<close>.\<close>

definition requestConfig :: "config \<Rightarrow> string \<Rightarrow> js_object option \<Rightarrow> js_object" where
  "requestConfig config endpoint optionsArg =
     (let options = (case optionsArg of None \<Rightarrow> Map.empty | Some opts \<Rightarrow> opts);
          url = baseURL config @ endpoint;
          defaultOptions =
            [''timeout'' \<mapsto> JNum (request (timeouts config)),
             ''headers'' \<mapsto> JObj [(''Content-Type'', JStr ''application/json'')]]
      in [''url'' \<mapsto> JStr url] ++ defaultOptions ++ options)"

text \<open>
  The diagnostic \<^verbatim>\<open>console.log\<close> calls write to the terminal only and are left out,
  but for the read of \<^verbatim>\<open>error.message\<close> that opens the catch block: on a reason that
  is null or undefined it raises, inside the handler, and so out of \<^verbatim>\<open>makeRequest\<close>.
  The endpoint is a string, so the template literal that builds the URL cannot raise.
\<close>

definition makeRequest ::
  "config \<Rightarrow> transport \<Rightarrow> string \<Rightarrow> js_object option \<Rightarrow> js_error + response" where
  "makeRequest config axios endpoint optionsArg =
     (case axios (requestConfig config endpoint optionsArg) of
        Inr resp \<Rightarrow> Inr resp
      | Inl Nullish \<Rightarrow> Inl TypeError
      | Inl (ErrorObject error) \<Rightarrow>
          (case error_response error of
             Some resp \<Rightarrow> Inr resp
           | None \<Rightarrow>
               if error_request error then
                 Inr \<lparr>status = 0,
                      data = JObj [(''error'', JStr ''No response received'')],
                      headers = Map.empty\<rparr>
               else
                 Inr \<lparr>status = 0,
                      data = JObj [(''error'', JStr (message error))],
                      headers = Map.empty\<rparr>))"

text \<open>
  The response the transport delivered, if any: the one it resolved with, or the one
  attached to the error it rejected with.
\<close>

fun received :: "rejection + response \<Rightarrow> response option" where
  "received (Inr r) = Some r"
| "received (Inl Nullish) = None"
| "received (Inl (ErrorObject e)) = error_response e"

section \<open>The performance timer\<close>

text \<open>
  \<^verbatim>\<open>Date.now()\<close> reads the wall clock, in whole milliseconds. The clock is part of
  the world the awaited operation runs in: the operation takes the world and returns its
  outcome (rejected, \<open>Inl\<close>, or resolved, \<open>Inr\<close>) with the world it leaves. A
  rejection passes through \<^verbatim>\<open>measurePerformance\<close>, which has no handler. The limit is a
  whole number of milliseconds, 1000 when the argument is left out.
\<close>

record world =
  now :: int

record 'a performance =
  duration :: int
  isWithinLimit :: bool
  response :: 'a

definition measurePerformance ::
  "(world \<Rightarrow> ('e + 'a) \<times> world) \<Rightarrow> int option \<Rightarrow> world \<Rightarrow> ('e + 'a performance) \<times> world" where
  "measurePerformance requestFn maxTimeArg w =
     (let maxTime = (case maxTimeArg of None \<Rightarrow> 1000 | Some m \<Rightarrow> m);
          startTime = now w
      in case requestFn w of
           (Inl e, w') \<Rightarrow> (Inl e, w')
         | (Inr resp, w') \<Rightarrow>
             (let endTime = now w';
                  duration = endTime - startTime
              in (Inr \<lparr>duration = duration,
                        isWithinLimit = (duration \<le> maxTime),
                        response = resp\<rparr>, w')))"

section \<open>Properties of the validator\<close>

lemma forEach_required_record:
  "''hasOwnProperty'' \<notin> set (map fst kvs) \<Longrightarrow>
   forEach
     (\<lambda>field _ errs.
        case hasOwnProperty (JObj kvs) field of
          Inl e \<Rightarrow> Inl e
        | Inr has \<Rightarrow>
            Inr (if \<not> has then errs @ [''Missing required field: '' @ field] else errs))
     req i acc
   = Inr (acc @ map (\<lambda>field. ''Missing required field: '' @ field)
                    (filter (\<lambda>field. field \<notin> set (map fst kvs)) req))"
  by (induction req arbitrary: i acc) simp_all

lemma validateSchema_record_result:
  assumes "''hasOwnProperty'' \<notin> set (map fst kvs) \<or> required schema = []"
  shows "validateSchema (JObj kvs) schema =
     Inr \<lparr>isValid = (\<forall>field \<in> set (required schema). field \<in> set (map fst kvs)),
          errors = map (\<lambda>field. ''Missing required field: '' @ field)
                       (filter (\<lambda>field. field \<notin> set (map fst kvs)) (required schema))\<rparr>"
proof (cases "required schema = []")
  case True
  then show ?thesis
    by (simp add: validateSchema_def)
next
  case False
  with assms have plain: "''hasOwnProperty'' \<notin> set (map fst kvs)"
    by blast
  show ?thesis
    unfolding validateSchema_def forEach_required_record [OF plain]
    by (simp add: filter_empty_conv)
qed

lemma validateSchema_shadowed:
  assumes "''hasOwnProperty'' \<in> set (map fst kvs)" and "required schema \<noteq> []"
  shows "validateSchema (JObj kvs) schema = Inl TypeError"
proof -
  from assms(2) obtain field req where "required schema = field # req"
    by (cases "required schema") auto
  with assms(1) show ?thesis
    by (simp add: validateSchema_def)
qed




lemma show_nat_digits: "show_nat 0 = ''0''" "show_nat (Suc 0) = ''1''"
  by (simp_all add: show_nat.simps digit_def)







text \<open>
  C6. On a value that is not an array, \<^verbatim>\<open>validateArraySchema\<close> returns \<open>isValid = False\<close>
  with the one error \<^verbatim>\<open>Response is not an array\<close>, whatever the schema.
\<close>

theorem validateArraySchema_not_array:
  "\<not> isArray x \<Longrightarrow>
     validateArraySchema x schema =
       Inr \<lparr>isValid = False, errors = [''Response is not an array'']\<rparr>
     \<and> validateArraySchema x schema = validateArraySchema x schema'"
  by (simp add: validateArraySchema_def)

theorem validateArraySchema_not_array_witness:
  "\<not> isArray JUndefined
   \<and> validateArraySchema JUndefined \<lparr>required = [''id'', ''symbol''], optional = []\<rparr>
     = Inr \<lparr>isValid = False, errors = [''Response is not an array'']\<rparr>
   \<and> validateArraySchema JUndefined \<lparr>required = [''id'', ''symbol''], optional = []\<rparr>
     = validateArraySchema JUndefined \<lparr>required = [], optional = [''name'']\<rparr>"
  using validateArraySchema_not_array
    [of JUndefined "\<lparr>required = [''id'', ''symbol''], optional = []\<rparr>"
        "\<lparr>required = [], optional = [''name'']\<rparr>"]
  by auto

text \<open>
  C8. Every result that \<^verbatim>\<open>validateSchema\<close> or \<^verbatim>\<open>validateArraySchema\<close> returns, on any
  value, has \<open>isValid\<close> exactly when its list of errors is empty.
\<close>

theorem validation_isValid_iff_no_errors:
  "(validateSchema r schema = Inr v \<longrightarrow> isValid v = (length (errors v) = 0))
   \<and> (validateArraySchema x schema = Inr v' \<longrightarrow> isValid v' = (length (errors v') = 0))"
  by (auto simp: validateSchema_def validateArraySchema_def split: sum.splits if_splits)

theorem validation_isValid_iff_no_errors_witness:
  "validateSchema (JObj [(''id'', JStr ''a'')]) \<lparr>required = [''id''], optional = []\<rparr>
     = Inr \<lparr>isValid = True, errors = []\<rparr>
   \<and> isValid \<lparr>isValid = True, errors = []\<rparr>
     = (length (errors \<lparr>isValid = True, errors = []\<rparr>) = 0)
   \<and> validateArraySchema (JArr [JObj [(''id'', JStr ''a'')]])
       \<lparr>required = [''id'', ''symbol''], optional = []\<rparr>
     = Inr \<lparr>isValid = False, errors = [''Item 0: Missing required field: symbol'']\<rparr>
   \<and> isValid \<lparr>isValid = False, errors = [''Item 0: Missing required field: symbol'']\<rparr>
     = (length (errors \<lparr>isValid = False,
                         errors = [''Item 0: Missing required field: symbol'']\<rparr>) = 0)
   \<and> validateArraySchema (JStr ''Server Error'') \<lparr>required = [''id''], optional = []\<rparr>
     = Inr \<lparr>isValid = False, errors = [''Response is not an array'']\<rparr>"
  using
    validation_isValid_iff_no_errors
      [of "JObj [(''id'', JStr ''a'')]" "\<lparr>required = [''id''], optional = []\<rparr>"
          "\<lparr>isValid = True, errors = []\<rparr>" "JStr ''Server Error''"
          "\<lparr>isValid = False, errors = [''Response is not an array'']\<rparr>"]
    validation_isValid_iff_no_errors
      [of "JObj [(''id'', JStr ''a'')]" "\<lparr>required = [''id'', ''symbol''], optional = []\<rparr>"
          "\<lparr>isValid = False, errors = [''Missing required field: symbol'']\<rparr>"
          "JArr [JObj [(''id'', JStr ''a'')]]"
          "\<lparr>isValid = False, errors = [''Item 0: Missing required field: symbol'']\<rparr>"]
  by (simp add: validateSchema_record_result validateArraySchema_def show_nat_digits)

text \<open>
  C10. On the empty array, \<^verbatim>\<open>validateArraySchema\<close> returns \<open>isValid = True\<close> and no
  errors, whatever the schema requires.
\<close>

theorem validateArraySchema_empty_array:
  "validateArraySchema (JArr []) schema = Inr \<lparr>isValid = True, errors = []\<rparr>"
  by (simp add: validateArraySchema_def)

section \<open>Properties of the request executor\<close>

lemma requestConfig_lookup:
  "requestConfig config endpoint optionsArg k =
     (case (case optionsArg of None \<Rightarrow> Map.empty | Some opts \<Rightarrow> opts) k of
        Some v \<Rightarrow> Some v
      | None \<Rightarrow>
          (if k = ''headers'' then Some (JObj [(''Content-Type'', JStr ''application/json'')])
           else if k = ''timeout'' then Some (JNum (request (timeouts config)))
           else if k = ''url'' then Some (JStr (baseURL config @ endpoint))
           else None))"
  by (simp add: requestConfig_def Let_def map_add_def split: option.splits)

text \<open>
  C2, as the code has it. The configuration that \<^verbatim>\<open>makeRequest\<close> hands to the transport
  has, under every property name, the caller's value where the caller's options have one
  (\<^verbatim>\<open>method\<close>, \<^verbatim>\<open>data\<close>, \<^verbatim>\<open>timeout\<close>, \<^verbatim>\<open>headers\<close> and any other), and otherwise the
  default: \<^verbatim>\<open>{Content-Type: application/json}\<close> under \<^verbatim>\<open>headers\<close>, the configured
  request timeout under \<^verbatim>\<open>timeout\<close>, the base URL followed by the endpoint under
  \<^verbatim>\<open>url\<close>, and nothing under any other name. So a caller's \<^verbatim>\<open>headers\<close> value stands in
  place of the default headers, whole. The transport is consulted on this
  configuration and no other.
\<close>

theorem requestConfig_caller_options:
  "requestConfig config endpoint optionsArg k =
     (case (case optionsArg of None \<Rightarrow> Map.empty | Some options \<Rightarrow> options) k of
        Some v \<Rightarrow> Some v
      | None \<Rightarrow>
          (if k = ''headers'' then Some (JObj [(''Content-Type'', JStr ''application/json'')])
           else if k = ''timeout'' then Some (JNum (request (timeouts config)))
           else if k = ''url'' then Some (JStr (baseURL config @ endpoint))
           else None))
   \<and> makeRequest config axios endpoint optionsArg =
     makeRequest config (\<lambda>_. axios (requestConfig config endpoint optionsArg)) endpoint optionsArg"
  by (simp add: requestConfig_lookup makeRequest_def)

theorem requestConfig_caller_options_witness:
  "requestConfig config_js ''/api/history''
     (Some [''method'' \<mapsto> JStr ''POST'', ''data'' \<mapsto> JObj [(''invalid'', JStr ''data'')]])
     ''method'' = Some (JStr ''POST'')
   \<and> requestConfig config_js ''/api/history''
     (Some [''method'' \<mapsto> JStr ''POST'', ''data'' \<mapsto> JObj [(''invalid'', JStr ''data'')]])
     ''headers'' = Some (JObj [(''Content-Type'', JStr ''application/json'')])
   \<and> requestConfig config_js ''/api/tokens'' (Some [''timeout'' \<mapsto> JNum 1]) ''timeout''
     = Some (JNum 1)
   \<and> requestConfig config_js ''/api/tokens'' None ''timeout'' = Some (JNum 5000)
   \<and> requestConfig config_js ''/api/tokens'' None ''url''
     = Some (JStr ''http://localhost:5006/api/tokens'')"
  using
    requestConfig_caller_options
      [of config_js "''/api/history''"
          "Some [''method'' \<mapsto> JStr ''POST'', ''data'' \<mapsto> JObj [(''invalid'', JStr ''data'')]]"
          "''method''"]
    requestConfig_caller_options
      [of config_js "''/api/history''"
          "Some [''method'' \<mapsto> JStr ''POST'', ''data'' \<mapsto> JObj [(''invalid'', JStr ''data'')]]"
          "''headers''"]
    requestConfig_caller_options
      [of config_js "''/api/tokens''" "Some [''timeout'' \<mapsto> JNum 1]" "''timeout''"]
    requestConfig_caller_options [of config_js "''/api/tokens''" None "''timeout''"]
    requestConfig_caller_options [of config_js "''/api/tokens''" None "''url''"]
  by (simp add: config_js_def)

text \<open>
  The headers are not merged. A caller who passes \<^verbatim>\<open>{headers: {Accept: 'text/html'}}\<close>
  overrides no \<^verbatim>\<open>Content-Type\<close>, yet the headers handed to the transport are the
  caller's alone and hold no \<^verbatim>\<open>Content-Type\<close>.
\<close>

theorem requestConfig_headers_not_merged:
  "requestConfig config_js ''/api/tokens''
     (Some [''headers'' \<mapsto> JObj [(''Accept'', JStr ''text/html'')]]) ''headers''
   = Some (JObj [(''Accept'', JStr ''text/html'')])
   \<and> map_of [(''Accept'', JStr ''text/html'')] ''Content-Type'' = None"
  by (simp add: requestConfig_lookup)






text \<open>
  C9, as the code has it. Whenever the transport delivered a response, by resolving or
  attached to its error, \<^verbatim>\<open>makeRequest\<close> returns that response as it is, so with the
  status it carries. \<^verbatim>\<open>makeRequest\<close> does not look at that status: if the response
  delivered, when there is one, has a status other than 0, then a result with status 0
  comes only from a rejection by an error object without a response, has no headers,
  and its body is an object with the one key \<^verbatim>\<open>error\<close>.
\<close>

theorem makeRequest_status_zero:
  "(received (axios (requestConfig config endpoint optionsArg)) = Some r
      \<longrightarrow> makeRequest config axios endpoint optionsArg = Inr r)
   \<and> ((\<forall>r. received (axios (requestConfig config endpoint optionsArg)) = Some r
              \<longrightarrow> status r \<noteq> 0)
        \<and> makeRequest config axios endpoint optionsArg = Inr res \<and> status res = 0
      \<longrightarrow> (\<exists>e. axios (requestConfig config endpoint optionsArg) = Inl (ErrorObject e)
                \<and> error_response e = None)
          \<and> headers res = Map.empty
          \<and> (\<exists>msg. data res = JObj [(''error'', JStr msg)]))"
proof (cases "axios (requestConfig config endpoint optionsArg)")
  case (Inr resp)
  then show ?thesis
    by (auto simp: makeRequest_def)
next
  case (Inl reason)
  then show ?thesis
    by (cases reason) (auto simp: makeRequest_def split: option.splits if_splits)
qed

theorem makeRequest_status_zero_witness:
  "makeRequest config_js
     (\<lambda>_. Inl (ErrorObject \<lparr>message = ''timeout of 1ms exceeded'', error_response = None,
                            error_request = True\<rparr>))
     ''/api/tokens'' None
   = Inr \<lparr>status = 0, data = JObj [(''error'', JStr ''No response received'')],
          headers = Map.empty\<rparr>
   \<and> headers \<lparr>status = 0, data = JObj [(''error'', JStr ''No response received'')],
              headers = Map.empty\<rparr> = Map.empty
   \<and> (\<exists>msg. data \<lparr>status = 0, data = JObj [(''error'', JStr ''No response received'')],
                    headers = Map.empty\<rparr> = JObj [(''error'', JStr msg)])
   \<and> makeRequest config_js
     (\<lambda>_. Inr \<lparr>status = 500, data = JStr ''Server Error'',
               headers = [''content-type'' \<mapsto> ''text/html'']\<rparr>)
     ''/api/tokens'' None
     = Inr \<lparr>status = 500, data = JStr ''Server Error'',
            headers = [''content-type'' \<mapsto> ''text/html'']\<rparr>"
  using
    makeRequest_status_zero
      [where config = config_js
         and axios = "\<lambda>_. Inl (ErrorObject \<lparr>message = ''timeout of 1ms exceeded'',
                               error_response = None, error_request = True\<rparr>)"
         and endpoint = "''/api/tokens''" and optionsArg = None
         and res = "\<lparr>status = 0, data = JObj [(''error'', JStr ''No response received'')],
                      headers = Map.empty\<rparr>"]
    makeRequest_status_zero
      [where config = config_js
         and axios = "\<lambda>_. Inr \<lparr>status = 500, data = JStr ''Server Error'',
                               headers = [''content-type'' \<mapsto> ''text/html'']\<rparr>"
         and endpoint = "''/api/tokens''" and optionsArg = None
         and r = "\<lparr>status = 500, data = JStr ''Server Error'',
                    headers = [''content-type'' \<mapsto> ''text/html'']\<rparr>"]
  by (simp add: makeRequest_def)

text \<open>
  The transport rejects with a response attached whose status is 0: \<^verbatim>\<open>makeRequest\<close>
  returns it, status 0 with a header and a body that is no error object.
\<close>

theorem makeRequest_status_zero_with_headers:
  "makeRequest config_js
     (\<lambda>_. Inl (ErrorObject
              \<lparr>message = ''Request failed with status code 0'',
               error_response =
                 Some \<lparr>status = 0, data = JStr ''Server Error'',
                       headers = [''content-type'' \<mapsto> ''text/html'']\<rparr>,
               error_request = True\<rparr>))
     ''/api/tokens'' None
   = Inr \<lparr>status = 0, data = JStr ''Server Error'',
          headers = [''content-type'' \<mapsto> ''text/html'']\<rparr>
   \<and> [''content-type'' \<mapsto> ''text/html''] ''content-type'' = Some ''text/html''"
  by (simp add: makeRequest_def)

section \<open>Properties of the performance timer\<close>

text \<open>
  C7, as the code has it. When the operation resolves, \<^verbatim>\<open>measurePerformance\<close> returns
  a result whose duration is the whole number of milliseconds by which the reading of
  the clock after the operation exceeds the reading before it, whose \<open>isWithinLimit\<close>
  says whether that duration is at most the limit (1000 when none is given), and whose
  \<open>response\<close> is the value the operation resolved to.
\<close>

theorem measurePerformance_result:
  "requestFn w = (Inr v, w') \<Longrightarrow>
   measurePerformance requestFn maxTimeArg w =
     (Inr \<lparr>duration = now w' - now w,
           isWithinLimit =
             (now w' - now w \<le> (case maxTimeArg of None \<Rightarrow> 1000 | Some m \<Rightarrow> m)),
           response = v\<rparr>, w')"
  by (simp add: measurePerformance_def Let_def)

theorem measurePerformance_result_witness:
  "measurePerformance
     (\<lambda>w. (Inr \<lparr>status = 200, data = JObj [(''success'', JStr ''ok'')], headers = Map.empty\<rparr>
              :: js_error + response,
           w\<lparr>now := now w + 1500\<rparr>))
     None \<lparr>now = 1700000000000\<rparr>
   = (Inr \<lparr>duration = 1500, isWithinLimit = False,
           response = \<lparr>status = 200, data = JObj [(''success'', JStr ''ok'')],
                       headers = Map.empty\<rparr>\<rparr>,
      \<lparr>now = 1700000001500\<rparr>)"
  using measurePerformance_result
    [where requestFn = "\<lambda>w. (Inr \<lparr>status = 200, data = JObj [(''success'', JStr ''ok'')],
                                    headers = Map.empty\<rparr> :: js_error + response,
                              w\<lparr>now := now w + 1500\<rparr>)"
       and w = "\<lparr>now = 1700000000000\<rparr>" and w' = "\<lparr>now = 1700000001500\<rparr>"
       and v = "\<lparr>status = 200, data = JObj [(''success'', JStr ''ok'')], headers = Map.empty\<rparr>"
       and maxTimeArg = None]
  by simp

text \<open>
  The wall clock is set back by 5 ms while the operation runs: the duration returned is
  negative, and within the limit.
\<close>

theorem measurePerformance_negative_duration:
  "measurePerformance
     (\<lambda>w. (Inr \<lparr>status = 200, data = JObj [(''success'', JStr ''ok'')], headers = Map.empty\<rparr>
              :: js_error + response,
           w\<lparr>now := now w - 5\<rparr>))
     (Some 1000) \<lparr>now = 1700000000000\<rparr>
   = (Inr \<lparr>duration = - 5, isWithinLimit = True,
           response = \<lparr>status = 200, data = JObj [(''success'', JStr ''ok'')],
                       headers = Map.empty\<rparr>\<rparr>,
      \<lparr>now = 1699999999995\<rparr>)"
  by (simp add: measurePerformance_def Let_def)

end
